theory Spec2Isabelle
  imports Main "HOL-Library.Product_Lexorder"
begin

section \<open>Data model of \<open>django_ledger/models/ledger.py\<close>\<close>

text \<open>
  Calendar dates are (year, month, day) triples and timestamps are a date with the
  microsecond of the day; both are compared lexicographically, as Python compares
  \<open>datetime.date\<close> and \<open>datetime.datetime\<close> values.
\<close>

type_synonym date = "nat \<times> nat \<times> nat"
type_synonym datetime = "date \<times> nat"

text \<open>\<open>datetime.date()\<close>: the calendar date of a timestamp.\<close>

definition dt_date :: "datetime \<Rightarrow> date" where
  "dt_date ts = fst ts"

type_synonym user = nat

text \<open>
  The \<open>EntityModel\<close> row a ledger points to, with the columns that the ledger module reads:
  the primary key, the slug, the admin, the many-to-many manager rows and the nullable
  \<open>last_closing_date\<close> (\<open>get_entity_last_closing_date\<close> returns \<open>Optional[date]\<close>).
\<close>

record entity =
  e_uuid :: nat
  slug :: string
  admin :: user
  managers :: "user list"
  last_closing_date :: "date option"

text \<open>The columns of a \<open>JournalEntryModel\<close> row that \<open>LedgerModelAbstract.delete\<close> reads.\<close>

record journal_entry =
  je_posted :: bool
  timestamp :: datetime

text \<open>
  \<open>LedgerModelAbstract\<close>: the fields declared by the class, the related entity row
  (\<open>select_related('entity')\<close>), the reverse relation \<open>journal_entries\<close> and the
  \<open>updated\<close> column of \<open>CreateUpdateMixIn\<close> (a nullable \<open>auto_now\<close> timestamp, as the
  migration declares it for the other models), which the transitions name in
  \<open>update_fields\<close>. \<open>name\<close> is declared with \<open>null=True\<close>. The primary key \<open>uuid\<close>
  of an instance is \<open>None\<close> once the instance has been deleted.
\<close>

record ledger =
  uuid :: "nat option"
  name :: "string option"
  entity :: entity
  posted :: bool
  locked :: bool
  hidden :: bool
  updated :: "datetime option"
  journal_entries :: "journal_entry list"

text \<open>
  What a method asks of the database: \<open>self.save(update_fields=[...])\<close> and
  \<open>super().delete()\<close>. The calls are recorded in the order they are made; failures of the
  database itself are outside the model. \<open>clock\<close> is the time that an \<open>auto_now\<close>
  column reads when it is saved.
\<close>

datatype db_call = Save "string list" | Delete_row

record ledger_state =
  model :: ledger
  clock :: datetime
  db_calls :: "db_call list"

text \<open>
  Both errors raised by \<open>delete\<close> are \<open>LedgerModelValidationError\<close>; they differ in the
  message, which carries the values formatted into it. \<open>TypeError\<close> is what Python raises
  when a \<open>date\<close> is compared with \<open>None\<close>.
\<close>

datatype validation_message =
    LedgerNotDeletable "string option" bool bool
  | ClosedPeriodViolation date "date option"

datatype error = LedgerModelValidationError validation_message | TypeError

datatype outcome = Returned | Raised error

section \<open>Predicates\<close>

text \<open>Python's \<open>all\<close> on a list of booleans.\<close>

definition py_all :: "bool list \<Rightarrow> bool" where
  "py_all bs = list_all (\<lambda>b. b) bs"

definition is_posted :: "ledger \<Rightarrow> bool" where
  "is_posted l = (posted l = True)"

definition is_locked :: "ledger \<Rightarrow> bool" where
  "is_locked l = (locked l = True)"

definition is_hidden :: "ledger \<Rightarrow> bool" where
  "is_hidden l = (hidden l = True)"

definition can_post :: "ledger \<Rightarrow> bool" where
  "can_post l = (posted l = False)"

definition can_unpost :: "ledger \<Rightarrow> bool" where
  "can_unpost l = py_all [is_posted l, \<not> is_locked l]"

definition can_lock :: "ledger \<Rightarrow> bool" where
  "can_lock l = py_all [\<not> locked l, posted l]"

definition can_unlock :: "ledger \<Rightarrow> bool" where
  "can_unlock l = py_all [locked l, posted l]"

definition can_delete :: "ledger \<Rightarrow> bool" where
  "can_delete l = (if \<not> is_locked l \<and> \<not> is_posted l then True else False)"

section \<open>Transitions\<close>

text \<open>
  \<open>self.save(update_fields=...)\<close>: the named columns are written; an \<open>auto_now\<close> column
  among them is first set, on the instance too, to the current time.
\<close>

definition save :: "string list \<Rightarrow> ledger_state \<Rightarrow> ledger_state" where
  "save update_fields s =
     s\<lparr>model := (if ''updated'' \<in> set update_fields
                  then (model s)\<lparr>updated := Some (clock s)\<rparr> else model s),
       db_calls := db_calls s @ [Save update_fields]\<rparr>"

definition post :: "bool \<Rightarrow> ledger_state \<Rightarrow> ledger_state" where
  "post commit s =
     (if can_post (model s) then
        (let s1 = s\<lparr>model := (model s)\<lparr>posted := True\<rparr>\<rparr>
         in if commit then save [''posted'', ''updated''] s1 else s1)
      else s)"

definition unpost :: "bool \<Rightarrow> ledger_state \<Rightarrow> ledger_state" where
  "unpost commit s =
     (if can_unpost (model s) then
        (let s1 = s\<lparr>model := (model s)\<lparr>posted := False\<rparr>\<rparr>
         in if commit then save [''posted'', ''updated''] s1 else s1)
      else s)"

definition lock :: "bool \<Rightarrow> ledger_state \<Rightarrow> ledger_state" where
  "lock commit s =
     (if can_lock (model s) then
        (let s1 = s\<lparr>model := (model s)\<lparr>locked := True\<rparr>\<rparr>
         in if commit then save [''locked'', ''updated''] s1 else s1)
      else s)"

definition unlock :: "bool \<Rightarrow> ledger_state \<Rightarrow> ledger_state" where
  "unlock commit s =
     (if can_unlock (model s) then
        (let s1 = s\<lparr>model := (model s)\<lparr>locked := False\<rparr>\<rparr>
         in if commit then save [''locked'', ''updated''] s1 else s1)
      else s)"

section \<open>Deletion\<close>

text \<open>
  Modelled from the spec: \<open>JournalEntryModelQuerySet.posted\<close> is not part of the ledger
  module; the spec's "posted JournalEntry under the ledger" is the rows whose posted flag
  is set.
\<close>

definition je_qs_posted :: "journal_entry list \<Rightarrow> journal_entry list" where
  "je_qs_posted qs = filter je_posted qs"

text \<open>\<open>order_by('-timestamp')\<close>, \<open>values('timestamp')\<close> and \<open>first()\<close> of a query set.\<close>

definition order_by_timestamp_desc :: "journal_entry list \<Rightarrow> journal_entry list" where
  "order_by_timestamp_desc qs = rev (sort_key timestamp qs)"

definition values_timestamp :: "journal_entry list \<Rightarrow> datetime list" where
  "values_timestamp qs = map timestamp qs"

definition qs_first :: "'a list \<Rightarrow> 'a option" where
  "qs_first qs = (case qs of [] \<Rightarrow> None | x # _ \<Rightarrow> Some x)"

text \<open>
  \<open>earliest_date <= self.entity.last_closing_date\<close>: comparing a date with \<open>None\<close>
  raises \<open>TypeError\<close>.
\<close>

definition py_date_le :: "date \<Rightarrow> date option \<Rightarrow> error + bool" where
  "py_date_le d c = (case c of None \<Rightarrow> Inl TypeError | Some c' \<Rightarrow> Inr (d \<le> c'))"

definition get_entity_last_closing_date :: "ledger \<Rightarrow> date option" where
  "get_entity_last_closing_date l = last_closing_date (entity l)"

text \<open>
  \<open>super().delete(**kwargs)\<close>: the row is handed to the database for destruction, which
  cascades to the journal entries under the ledger, and the primary key of the instance
  is set to \<open>None\<close>.
\<close>

definition super_delete :: "ledger_state \<Rightarrow> ledger_state" where
  "super_delete s =
     s\<lparr>model := (model s)\<lparr>uuid := None, journal_entries := []\<rparr>,
       db_calls := db_calls s @ [Delete_row]\<rparr>"

definition delete :: "ledger_state \<Rightarrow> outcome \<times> ledger_state" where
  "delete s =
     (let l = model s in
      if \<not> can_delete l then
        (Raised (LedgerModelValidationError
                   (LedgerNotDeletable (name l) (is_posted l) (is_locked l))), s)
      else
        (case qs_first (values_timestamp (order_by_timestamp_desc
                          (je_qs_posted (journal_entries l)))) of
           None \<Rightarrow> (Returned, super_delete s)
         | Some earliest_je_timestamp \<Rightarrow>
             (let earliest_date = dt_date earliest_je_timestamp in
              case py_date_le earliest_date (last_closing_date (entity l)) of
                Inl e \<Rightarrow> (Raised e, s)
              | Inr True \<Rightarrow>
                  (Raised (LedgerModelValidationError
                             (ClosedPeriodViolation earliest_date
                                (get_entity_last_closing_date l))), s)
              | Inr False \<Rightarrow> (Returned, super_delete s))))"

section \<open>Method calls\<close>

text \<open>
  A call of one of the lifecycle methods on a ledger: what it raises, if anything, and the
  state it leaves. The four transitions contain no \<open>raise\<close>.
\<close>

datatype ledger_op = Post bool | Unpost bool | Lock bool | Unlock bool | Delete

fun call :: "ledger_op \<Rightarrow> ledger_state \<Rightarrow> outcome \<times> ledger_state" where
  "call (Post commit) s = (Returned, post commit s)"
| "call (Unpost commit) s = (Returned, unpost commit s)"
| "call (Lock commit) s = (Returned, lock commit s)"
| "call (Unlock commit) s = (Returned, unlock commit s)"
| "call Delete s = delete s"

fun call_all :: "ledger_op list \<Rightarrow> ledger_state \<Rightarrow> ledger_state" where
  "call_all [] s = s"
| "call_all (x # xs) s = call_all xs (snd (call x s))"

text \<open>A ledger as the field defaults create it.\<close>

definition is_new :: "ledger \<Rightarrow> bool" where
  "is_new l = (posted l = False \<and> locked l = False \<and> hidden l = False)"

definition is_transition :: "ledger_op \<Rightarrow> bool" where
  "is_transition x = (x \<noteq> Delete)"

section \<open>Entity-scoped query\<close>

datatype entity_ref = Entity_instance entity | Entity_slug string

definition get_queryset :: "ledger list \<Rightarrow> ledger list" where
  "get_queryset table = table"

text \<open>
  The filter on \<open>entity__managers\<close> joins the many-to-many table with a left outer join:
  one joined row for each manager of the entity, and one row with no manager when the
  entity has none.
\<close>

definition managers_join :: "entity \<Rightarrow> user option list" where
  "managers_join e = (if managers e = [] then [None] else map Some (managers e))"

definition for_entity :: "entity_ref \<Rightarrow> user \<Rightarrow> ledger list \<Rightarrow> ledger list" where
  "for_entity entity_slug user_model table =
     (let qs = get_queryset table in
      case entity_slug of
        Entity_instance e \<Rightarrow>
          [l. l \<leftarrow> qs, m \<leftarrow> managers_join (entity l),
              e_uuid (entity l) = e_uuid e \<and>
              (admin (entity l) = user_model \<or> m \<in> set [Some user_model])]
      | Entity_slug sl \<Rightarrow>
          [l. l \<leftarrow> qs, m \<leftarrow> managers_join (entity l),
              slug (entity l) = sl \<and>
              (admin (entity l) = user_model \<or> m \<in> set [Some user_model])])"

section \<open>The lifecycle invariant and example data\<close>

text \<open>Locking implies posted.\<close>

definition ledger_invariant :: "ledger \<Rightarrow> bool" where
  "ledger_invariant l = (locked l \<longrightarrow> posted l)"

text \<open>
  An entity whose books are closed on 2023-01-31, administered by user 1 and managed by
  users 2 and 3; a second entity of user 5 with no closing date; a new ledger of each.
\<close>

definition acme :: entity where
  "acme = \<lparr>e_uuid = 1, slug = ''acme'', admin = 1, managers = [2, 3],
            last_closing_date = Some (2023, 1, 31)\<rparr>"

definition globex :: entity where
  "globex = \<lparr>e_uuid = 2, slug = ''globex'', admin = 5, managers = [],
              last_closing_date = None\<rparr>"

definition books :: ledger where
  "books = \<lparr>uuid = Some 10, name = Some ''books'', entity = acme,
             posted = False, locked = False, hidden = False, updated = None,
             journal_entries = [\<lparr>je_posted = True, timestamp = ((2023, 1, 15), 0)\<rparr>,
                                \<lparr>je_posted = False, timestamp = ((2023, 3, 1), 0)\<rparr>]\<rparr>"

definition payroll :: ledger where
  "payroll = \<lparr>uuid = Some 11, name = Some ''payroll'', entity = globex,
               posted = False, locked = False, hidden = False, updated = None,
               journal_entries = [\<lparr>je_posted = True, timestamp = ((2023, 1, 15), 0)\<rparr>,
                                  \<lparr>je_posted = True, timestamp = ((2023, 2, 1), 0)\<rparr>]\<rparr>"

definition fresh :: "ledger \<Rightarrow> ledger_state" where
  "fresh l = \<lparr>model = l, clock = ((2023, 6, 1), 0), db_calls = []\<rparr>"

section \<open>Unfolding rules and shared lemmas\<close>

lemmas can_defs = can_post_def can_unpost_def can_lock_def can_unlock_def can_delete_def
  py_all_def is_posted_def is_locked_def

lemmas transition_defs = post_def unpost_def lock_def unlock_def save_def

lemmas query_defs = je_qs_posted_def order_by_timestamp_desc_def values_timestamp_def
  qs_first_def dt_date_def

lemmas delete_defs = delete_def super_delete_def py_date_le_def
  get_entity_last_closing_date_def

lemmas example_defs = fresh_def books_def payroll_def acme_def globex_def

lemma delete_flags:
  "posted (model (snd (delete s))) = posted (model s) \<and>
   locked (model (snd (delete s))) = locked (model s) \<and>
   hidden (model (snd (delete s))) = hidden (model s)"
  by (simp add: delete_defs Let_def split: option.split sum.split bool.split)

lemma delete_raised_state: "fst (delete s) = Raised e \<Longrightarrow> snd (delete s) = s"
  by (auto simp: delete_defs Let_def split: option.splits sum.splits bool.splits if_splits)

lemma call_hidden: "hidden (model (snd (call x s))) = hidden (model s)"
  by (cases x) (simp_all add: transition_defs delete_flags Let_def)

lemma call_preserves_invariant:
  "ledger_invariant (model s) \<Longrightarrow> ledger_invariant (model (snd (call x s)))"
  by (cases x) (auto simp: ledger_invariant_def transition_defs can_defs delete_flags Let_def)

lemma call_all_preserves_invariant:
  "ledger_invariant (model s) \<Longrightarrow> ledger_invariant (model (call_all xs s))"
  by (induction xs arbitrary: s) (simp_all add: call_preserves_invariant)

lemma is_new_invariant: "is_new l \<Longrightarrow> ledger_invariant l"
  by (simp add: is_new_def ledger_invariant_def)

section \<open>The query for the most recent posted journal entry\<close>

lemma sorted_last_Max: "sorted xs \<Longrightarrow> xs \<noteq> [] \<Longrightarrow> last xs = Max (set xs)"
proof (induction xs)
  case Nil
  then show ?case by simp
next
  case (Cons x xs)
  show ?case
  proof (cases "xs = []")
    case True
    then show ?thesis by simp
  next
    case False
    with Cons have "last xs = Max (set xs)" by simp
    moreover from Cons.prems False have "x \<le> Max (set xs)"
      by (metis List.finite_set Max_ge_iff last_in_set calculation set_empty sorted_simps(2))
    ultimately show ?thesis using False by (simp add: max_def)
  qed
qed

text \<open>
  The query of \<open>delete\<close> yields the greatest timestamp among the posted journal entries,
  and nothing when there is none (the source calls it \<open>earliest_je_timestamp\<close>).
\<close>

lemma most_recent_posted:
  "qs_first (values_timestamp (order_by_timestamp_desc (je_qs_posted jes))) =
     (if je_qs_posted jes = [] then None
      else Some (Max (timestamp ` set (je_qs_posted jes))))"
proof (cases "je_qs_posted jes = []")
  case True
  then show ?thesis
    by (simp add: qs_first_def values_timestamp_def order_by_timestamp_desc_def)
next
  case False
  let ?ts = "map timestamp (sort_key timestamp (je_qs_posted jes))"
  have ne: "?ts \<noteq> []" using False by (metis length_0_conv length_map length_sort)
  have "values_timestamp (order_by_timestamp_desc (je_qs_posted jes)) = rev ?ts"
    by (simp add: values_timestamp_def order_by_timestamp_desc_def rev_map)
  moreover have "qs_first (rev ?ts) = Some (last ?ts)"
    using ne by (cases "rev ?ts") (auto simp: qs_first_def last_rev hd_rev [symmetric])
  moreover have "last ?ts = Max (set ?ts)"
    using ne by (intro sorted_last_Max) simp_all
  ultimately show ?thesis using False by simp
qed

text \<open>
  On a deletable ledger whose entity has a closing date, \<open>delete\<close> is decided by the
  greatest posted timestamp alone: older posted entries are not looked at.
\<close>

lemma delete_closing_date_set:
  assumes "\<not> posted (model s)" and "\<not> locked (model s)"
    and "last_closing_date (entity (model s)) = Some c"
  shows "delete s =
    (let ps = je_qs_posted (journal_entries (model s)) in
     if ps \<noteq> [] \<and> dt_date (Max (timestamp ` set ps)) \<le> c
     then (Raised (LedgerModelValidationError
                     (ClosedPeriodViolation (dt_date (Max (timestamp ` set ps))) (Some c))), s)
     else (Returned, super_delete s))"
  using assms
  by (simp add: delete_def py_date_le_def get_entity_last_closing_date_def can_defs
      most_recent_posted Let_def)

section \<open>Transition predicates\<close>

text \<open>
  C2. The transition predicates are the spec's formulas over the current flags:
  \<open>can_post\<close> holds iff posted is false; \<open>can_unpost\<close> iff posted and not locked;
  \<open>can_lock\<close> iff not locked and posted; \<open>can_unlock\<close> iff locked and posted;
  \<open>can_delete\<close> iff neither posted nor locked.
\<close>

theorem can_predicates_formulas:
  "can_post l = (posted l = False) \<and>
   can_unpost l = (posted l = True \<and> locked l = False) \<and>
   can_lock l = (locked l = False \<and> posted l = True) \<and>
   can_unlock l = (locked l = True \<and> posted l = True) \<and>
   can_delete l = (posted l = False \<and> locked l = False)"
  by (auto simp: can_defs)

section \<open>The state machine\<close>

text \<open>
  C1. Every ledger reached from a new one (posted, locked and hidden all false) by any
  sequence of post, unpost, lock and unlock calls is posted whenever it is locked, and
  each single transition preserves this invariant.
\<close>

theorem locked_implies_posted:
  "(is_new (model s) \<and> list_all is_transition xs \<longrightarrow>
      (locked (model (call_all xs s)) \<longrightarrow> posted (model (call_all xs s)))) \<and>
   (ledger_invariant (model s) \<and> is_transition x \<longrightarrow>
      ledger_invariant (model (snd (call x s))))"
  using call_all_preserves_invariant [of s xs] is_new_invariant [of "model s"]
    call_preserves_invariant [of s x]
  by (auto simp: ledger_invariant_def)

theorem locked_implies_posted_witness:
  "is_new (model (fresh books)) \<and> list_all is_transition [Post True, Lock False] \<and>
   locked (model (call_all [Post True, Lock False] (fresh books))) \<and>
   posted (model (call_all [Post True, Lock False] (fresh books))) \<and>
   ledger_invariant (model (fresh books)) \<and> is_transition (Lock True) \<and>
   ledger_invariant (model (snd (call (Lock True) (fresh books))))"
  using locked_implies_posted [of "fresh books" "[Post True, Lock False]" "Lock True"]
  by (simp add: is_new_def is_transition_def ledger_invariant_def transition_defs can_defs
      example_defs)

text \<open>
  C7. A transition called outside its precondition is a silent no-op: post on a posted
  ledger, unpost or lock on a ledger that is unposted or locked, and unlock on a ledger
  that is not both locked and posted (in particular, not locked) return without raising
  and leave the whole state, flags included, as it was.
\<close>

theorem illegal_transition_noop:
  "(posted (model s) \<longrightarrow> call (Post c) s = (Returned, s)) \<and>
   (\<not> posted (model s) \<or> locked (model s) \<longrightarrow> call (Unpost c) s = (Returned, s)) \<and>
   (\<not> posted (model s) \<or> locked (model s) \<longrightarrow> call (Lock c) s = (Returned, s)) \<and>
   (\<not> (locked (model s) \<and> posted (model s)) \<longrightarrow> call (Unlock c) s = (Returned, s))"
  by (auto simp: transition_defs can_defs)

theorem illegal_transition_noop_witness:
  "posted (model (fresh (books\<lparr>posted := True, locked := True\<rparr>))) \<and>
   locked (model (fresh (books\<lparr>posted := True, locked := True\<rparr>))) \<and>
   call (Post True) (fresh (books\<lparr>posted := True, locked := True\<rparr>))
     = (Returned, fresh (books\<lparr>posted := True, locked := True\<rparr>)) \<and>
   call (Unpost True) (fresh (books\<lparr>posted := True, locked := True\<rparr>))
     = (Returned, fresh (books\<lparr>posted := True, locked := True\<rparr>)) \<and>
   call (Lock True) (fresh (books\<lparr>posted := True, locked := True\<rparr>))
     = (Returned, fresh (books\<lparr>posted := True, locked := True\<rparr>)) \<and>
   \<not> locked (model (fresh books)) \<and>
   call (Unlock True) (fresh books) = (Returned, fresh books)"
  using illegal_transition_noop [of "fresh (books\<lparr>posted := True, locked := True\<rparr>)" True]
    illegal_transition_noop [of "fresh books" True]
  by (simp add: example_defs)

text \<open>
  C9. Post is idempotent: the first call returns and leaves the ledger posted; a second
  call returns as well, raises nothing and leaves the state of the first call, so the
  ledger is posted after either call.
\<close>

theorem post_idempotent:
  "fst (call (Post c) s) = Returned \<and>
   posted (model (snd (call (Post c) s))) \<and>
   fst (call (Post c') (snd (call (Post c) s))) = Returned \<and>
   posted (model (snd (call (Post c') (snd (call (Post c) s))))) \<and>
   snd (call (Post c') (snd (call (Post c) s))) = snd (call (Post c) s)"
  by (simp add: transition_defs can_defs Let_def)

text \<open>
  C8, as stated, fails on a ledger that is already posted and locked: lock is a no-op
  there and unlock then clears the lock, so the pair goes from (true, true) to
  (true, false).
\<close>

theorem lock_unlock_counterexample:
  "(posted (model (unlock False (lock False (fresh (books\<lparr>posted := True, locked := True\<rparr>))))),
    locked (model (unlock False (lock False (fresh (books\<lparr>posted := True, locked := True\<rparr>))))))
   \<noteq> (posted (model (fresh (books\<lparr>posted := True, locked := True\<rparr>))),
       locked (model (fresh (books\<lparr>posted := True, locked := True\<rparr>))))"
  by (simp add: transition_defs can_defs example_defs)

text \<open>
  C8, amended. On every ledger that is not both posted and locked, lock followed by
  unlock restores the (posted, locked) pair it had before the lock call; on a posted and
  locked ledger lock changes nothing and the following unlock leaves the pair
  (true, false).
\<close>

theorem lock_unlock_roundtrip:
  "(\<not> (posted (model s) \<and> locked (model s)) \<longrightarrow>
      (posted (model (unlock c' (lock c s))), locked (model (unlock c' (lock c s))))
        = (posted (model s), locked (model s))) \<and>
   (posted (model s) \<and> locked (model s) \<longrightarrow>
      lock c s = s \<and>
      (posted (model (unlock c' (lock c s))), locked (model (unlock c' (lock c s))))
        = (True, False))"
  by (auto simp: transition_defs can_defs Let_def)

theorem lock_unlock_roundtrip_witness:
  "\<not> (posted (model (fresh (books\<lparr>posted := True\<rparr>))) \<and>
      locked (model (fresh (books\<lparr>posted := True\<rparr>)))) \<and>
   locked (model (lock True (fresh (books\<lparr>posted := True\<rparr>)))) \<and>
   (posted (model (unlock True (lock True (fresh (books\<lparr>posted := True\<rparr>))))),
    locked (model (unlock True (lock True (fresh (books\<lparr>posted := True\<rparr>))))))
     = (True, False) \<and>
   posted (model (fresh (books\<lparr>posted := True, locked := True\<rparr>))) \<and>
   locked (model (fresh (books\<lparr>posted := True, locked := True\<rparr>))) \<and>
   (posted (model (unlock True (lock True (fresh (books\<lparr>posted := True, locked := True\<rparr>))))),
    locked (model (unlock True (lock True (fresh (books\<lparr>posted := True, locked := True\<rparr>))))))
     = (True, False)"
  using lock_unlock_roundtrip [of "fresh (books\<lparr>posted := True\<rparr>)" True True]
    lock_unlock_roundtrip [of "fresh (books\<lparr>posted := True, locked := True\<rparr>)" True True]
  by (simp add: transition_defs can_defs example_defs)

text \<open>
  C10. Of the three flags, post and unpost change none but posted and lock and unlock
  none but locked; no lifecycle call, delete included, changes hidden; delete changes
  none of the three flags, and when it raises, the whole state is as before the call.
\<close>

theorem lifecycle_frame:
  "locked (model (post c s)) = locked (model s) \<and>
   hidden (model (post c s)) = hidden (model s) \<and>
   locked (model (unpost c s)) = locked (model s) \<and>
   hidden (model (unpost c s)) = hidden (model s) \<and>
   posted (model (lock c s)) = posted (model s) \<and>
   hidden (model (lock c s)) = hidden (model s) \<and>
   posted (model (unlock c s)) = posted (model s) \<and>
   hidden (model (unlock c s)) = hidden (model s) \<and>
   hidden (model (snd (call x s))) = hidden (model s) \<and>
   posted (model (snd (delete s))) = posted (model s) \<and>
   locked (model (snd (delete s))) = locked (model s) \<and>
   hidden (model (snd (delete s))) = hidden (model s) \<and>
   (\<forall>e. fst (delete s) = Raised e \<longrightarrow> snd (delete s) = s)"
  using call_hidden [of x s] delete_flags [of s] delete_raised_state [of s]
  by (simp add: transition_defs Let_def)

theorem lifecycle_frame_witness:
  "fst (delete (fresh (books\<lparr>locked := True\<rparr>)))
     = Raised (LedgerModelValidationError (LedgerNotDeletable (Some ''books'') False True)) \<and>
   snd (delete (fresh (books\<lparr>locked := True\<rparr>))) = fresh (books\<lparr>locked := True\<rparr>) \<and>
   fst (delete (fresh books))
     = Raised (LedgerModelValidationError
                 (ClosedPeriodViolation (2023, 1, 15) (Some (2023, 1, 31)))) \<and>
   snd (delete (fresh books)) = fresh books \<and>
   posted (model (post True (fresh books))) \<and>
   \<not> locked (model (post True (fresh books))) \<and>
   \<not> hidden (model (post True (fresh books))) \<and>
   updated (model (post True (fresh books))) = Some ((2023, 6, 1), 0)"
  using lifecycle_frame [of True "fresh (books\<lparr>locked := True\<rparr>)" Delete]
    lifecycle_frame [of True "fresh books" Delete]
  by (simp add: delete_defs transition_defs can_defs query_defs example_defs Let_def)

section \<open>Deletion guard\<close>

text \<open>
  C4, as stated, fails: on the posted, unlocked ledger of an entity closed on 2023-01-31
  whose most recent posted journal entry is dated 2023-01-15, the state check comes first
  and \<open>delete\<close> raises the not-deletable error, not the closed-period one.
\<close>

theorem delete_posted_counterexample:
  "fst (delete (fresh (books\<lparr>posted := True\<rparr>)))
     = Raised (LedgerModelValidationError (LedgerNotDeletable (Some ''books'') True False)) \<and>
   fst (delete (fresh (books\<lparr>posted := True\<rparr>)))
     \<noteq> Raised (LedgerModelValidationError
                 (ClosedPeriodViolation (2023, 1, 15) (Some (2023, 1, 31))))"
  by (simp add: delete_defs can_defs example_defs)

text \<open>
  C4, amended. On a ledger with posted true and locked false, \<open>delete\<close> fails with
  the not-deletable error carrying the ledger's name and its posted and locked values,
  whatever the journal entries and closing date, and leaves the state unchanged. The
  closed-period error, carrying 2023-01-15 and 2023-01-31, is what the same ledger gives
  once it is unposted.
\<close>

theorem delete_state_check_first:
  "(posted (model s) \<and> \<not> locked (model s) \<longrightarrow>
      delete s = (Raised (LedgerModelValidationError
                            (LedgerNotDeletable (name (model s)) True False)), s)) \<and>
   (\<not> posted (model s) \<and> \<not> locked (model s) \<and>
    last_closing_date (entity (model s)) = Some (2023, 1, 31) \<and>
    qs_first (values_timestamp (order_by_timestamp_desc
                (je_qs_posted (journal_entries (model s))))) = Some ts \<and>
    dt_date ts = (2023, 1, 15) \<longrightarrow>
      delete s = (Raised (LedgerModelValidationError
                            (ClosedPeriodViolation (2023, 1, 15) (Some (2023, 1, 31)))), s))"
  by (simp add: delete_defs can_defs Let_def)

theorem delete_state_check_first_witness:
  "posted (model (fresh (books\<lparr>posted := True\<rparr>))) \<and>
   \<not> locked (model (fresh (books\<lparr>posted := True\<rparr>))) \<and>
   delete (fresh (books\<lparr>posted := True\<rparr>))
     = (Raised (LedgerModelValidationError (LedgerNotDeletable (Some ''books'') True False)),
        fresh (books\<lparr>posted := True\<rparr>)) \<and>
   delete (fresh books)
     = (Raised (LedgerModelValidationError
                  (ClosedPeriodViolation (2023, 1, 15) (Some (2023, 1, 31)))), fresh books)"
  using delete_state_check_first [of "fresh (books\<lparr>posted := True\<rparr>)"]
    delete_state_check_first [of "fresh books" "((2023, 1, 15), 0)"]
  by (simp add: example_defs query_defs)

text \<open>
  C5. A deletable ledger with one posted journal entry, under an entity whose closing
  date is unset: the comparison of the entry's date with the unset closing date is
  evaluated and raises \<open>TypeError\<close>.
\<close>

theorem delete_unset_closing_date:
  "delete (fresh (books\<lparr>entity := acme\<lparr>last_closing_date := None\<rparr>\<rparr>))
     = (Raised TypeError, fresh (books\<lparr>entity := acme\<lparr>last_closing_date := None\<rparr>\<rparr>))"
  by (simp add: delete_defs can_defs example_defs query_defs)

text \<open>
  C3. A deletable ledger with two posted journal entries, the most recent dated
  2023-02-01, under an entity with no closing date: \<open>delete\<close> neither raises the
  closed-period error nor reaches destruction; it raises \<open>TypeError\<close> and makes no
  database call.
\<close>

theorem delete_most_recent_unset_closing_date:
  "can_delete payroll \<and>
   qs_first (values_timestamp (order_by_timestamp_desc
               (je_qs_posted (journal_entries payroll)))) = Some ((2023, 2, 1), 0) \<and>
   delete (fresh payroll) = (Raised TypeError, fresh payroll)"
  by (simp add: delete_defs can_defs example_defs query_defs)

section \<open>Entity-scoped access\<close>

text \<open>
  C6. For an entity given as a record or as a slug, the ledgers that \<open>for_entity\<close>
  returns are exactly the ledgers of that entity whose entity has the principal as admin
  or among its managers; no returned ledger belongs to an entity where the principal is
  neither.
\<close>

theorem for_entity_exact:
  "set (for_entity (Entity_instance e) u table) =
     {l \<in> set table. e_uuid (entity l) = e_uuid e \<and>
        (admin (entity l) = u \<or> u \<in> set (managers (entity l)))} \<and>
   set (for_entity (Entity_slug sl) u table) =
     {l \<in> set table. slug (entity l) = sl \<and>
        (admin (entity l) = u \<or> u \<in> set (managers (entity l)))} \<and>
   (\<forall>l \<in> set (for_entity r u table).
      admin (entity l) = u \<or> u \<in> set (managers (entity l)))"
  by (cases r) (auto simp: for_entity_def managers_join_def get_queryset_def)

theorem for_entity_exact_witness:
  "for_entity (Entity_slug ''acme'') 2 [books, payroll] = [books] \<and>
   for_entity (Entity_instance acme) 2 [books, payroll] = [books] \<and>
   for_entity (Entity_slug ''acme'') 5 [books, payroll] = [] \<and>
   books \<in> set (for_entity (Entity_slug ''acme'') 2 [books, payroll]) \<and>
   (admin (entity books) = 2 \<or> 2 \<in> set (managers (entity books)))"
  using for_entity_exact [of acme 2 "[books, payroll]" "''acme''" "Entity_slug ''acme''"]
  by (simp add: for_entity_def managers_join_def get_queryset_def example_defs)

end
